theory Spec2Isabelle
  imports Main "HOL-Library.Word"
begin

section \<open>The event record (syscall\_monitor.h)\<close>

text \<open>
  The two capacities of the header. \<open>char\<close> arrays are lists of 8-bit characters; a
  well-formed record holds exactly \<open>TASK_COMM_LEN\<close> and \<open>MAX_PATH_LEN\<close> of them.
\<close>

definition TASK_COMM_LEN :: nat where
  "TASK_COMM_LEN = 16"

definition MAX_PATH_LEN :: nat where
  "MAX_PATH_LEN = 256"

definition NUL :: char where
  "NUL = CHR 0x00"

record syscall_event =
  ts_ns :: "64 word"
  pid :: "32 word"
  ppid :: "32 word"
  uid :: "32 word"
  gid :: "32 word"
  syscall_ret :: "32 word"
  comm :: string
  filename :: string

definition wf_event :: "syscall_event \<Rightarrow> bool" where
  "wf_event e = (length (comm e) = TASK_COMM_LEN \<and> length (filename e) = MAX_PATH_LEN)"

text \<open>The C string held by a buffer: the characters before the first terminator.\<close>

definition cstring :: "string \<Rightarrow> string" where
  "cstring buf = takeWhile (\<lambda>c. c \<noteq> NUL) buf"

section \<open>The kernel as seen by the capture program\<close>

text \<open>
  The helpers of the BPF runtime are not part of the repository. Their results are
  parameters of the model, gathered in \<open>kernel_env\<close>: the clock, the identity words of
  the current task, the task structures reachable from kernel pointers, the user memory
  of the caller, and the outcome of the slot reservation (\<open>None\<close> for a NULL return,
  \<open>Some s\<close> for a slot whose memory holds \<open>s\<close>; the ring buffer does not clear it).
  The string copy from user memory moves a machine word at a time where it can and
  clears the rest of the word that holds the terminator: \<open>str_tail_zeros\<close> is the
  number of further zero bytes it would write after the terminator, any number being
  allowed.
\<close>

record task_struct =
  real_parent :: "64 word"
  parent :: "64 word"
  tgid :: "32 word"
  task_comm :: string

record kernel_env =
  ktime_ns :: "64 word"
  current_pid_tgid :: "64 word"
  current_uid_gid :: "64 word"
  current_task :: "64 word"
  tasks :: "64 word \<rightharpoonup> task_struct"
  user_mem :: "64 word \<rightharpoonup> char"
  str_tail_zeros :: nat
  ringbuf_reserve :: "syscall_event option"

record trace_event_raw_sys_enter =
  syscall_id :: int
  args :: "64 word list"

text \<open>
  Writing \<open>bs\<close> at the start of a buffer. A write longer than the buffer would make the
  result longer than the buffer: an overrun shows as a change of length.
\<close>

definition write_buf :: "string \<Rightarrow> string \<Rightarrow> string" where
  "write_buf buf bs = bs @ drop (length bs) buf"

definition memset0 :: "string \<Rightarrow> nat \<Rightarrow> string" where
  "memset0 buf n = write_buf buf (replicate n NUL)"

text \<open>
  \<open>strscpy_pad\<close>: at most \<open>n - 1\<close> characters of the source string, then terminators up
  to \<open>n\<close>.
\<close>

definition strscpy_pad :: "string \<Rightarrow> string \<Rightarrow> nat \<Rightarrow> string" where
  "strscpy_pad buf src n =
     (let s = take (n - 1) (cstring src)
      in write_buf buf (s @ replicate (n - length s) NUL))"

text \<open>
  \<open>bpf_get_current_comm(buf, size)\<close>: the short name of the current task, terminated
  and padded; the buffer is cleared when there is no current task.
\<close>

definition bpf_get_current_comm :: "kernel_env \<Rightarrow> string \<Rightarrow> nat \<Rightarrow> string" where
  "bpf_get_current_comm k buf n =
     (case tasks k (current_task k) of
        None \<Rightarrow> memset0 buf n
      | Some t \<Rightarrow> strscpy_pad buf (task_comm t) n)"

text \<open>
  \<open>strncpy_from_user\<close> without faulting: the characters before the terminator, reading
  at most \<open>n\<close> of them; \<open>None\<close> when an address on the way is not mapped.
\<close>

fun strncpy_from_user :: "(64 word \<rightharpoonup> char) \<Rightarrow> 64 word \<Rightarrow> nat \<Rightarrow> string option" where
  "strncpy_from_user mem a 0 = Some []"
| "strncpy_from_user mem a (Suc n) =
     (case mem a of
        None \<Rightarrow> None
      | Some c \<Rightarrow>
          if c = NUL then Some []
          else (case strncpy_from_user mem (a + 1) n of
                  None \<Rightarrow> None
                | Some cs \<Rightarrow> Some (c # cs)))"

text \<open>
  \<open>bpf_probe_read_user_str(dst, size, ptr)\<close>, which \<open>bpf_core_read_user_str\<close> expands
  to: on a fault the whole destination is cleared; otherwise the string, cut to
  \<open>size - 1\<close> characters, and its terminator are written, followed by the further zero
  bytes of the last word as far as they fit into \<open>size\<close>; what lies behind them is left
  as it was.
\<close>

definition bpf_core_read_user_str :: "kernel_env \<Rightarrow> string \<Rightarrow> nat \<Rightarrow> 64 word \<Rightarrow> string" where
  "bpf_core_read_user_str k dst n ptr =
     (if n = 0 then dst
      else (case strncpy_from_user (user_mem k) ptr n of
              None \<Rightarrow> memset0 dst n
            | Some s \<Rightarrow>
                (let s' = take (n - 1) s
                 in write_buf dst
                      (s' @ NUL # replicate (min (str_tail_zeros k) (n - Suc (length s'))) NUL))))"

text \<open>
  \<open>BPF_CORE_READ\<close> of one field behind a kernel pointer: a failed read leaves zero.
\<close>

definition core_read_real_parent :: "kernel_env \<Rightarrow> 64 word \<Rightarrow> 64 word" where
  "core_read_real_parent k p = (case tasks k p of None \<Rightarrow> 0 | Some t \<Rightarrow> real_parent t)"

definition core_read_tgid :: "kernel_env \<Rightarrow> 64 word \<Rightarrow> 32 word" where
  "core_read_tgid k p = (case tasks k p of None \<Rightarrow> 0 | Some t \<Rightarrow> tgid t)"

section \<open>The capture program (syscall\_monitor.bpf.c)\<close>

definition get_ppid_tgid :: "kernel_env \<Rightarrow> 32 word" where
  "get_ppid_tgid k =
     (let task = current_task k;
          parent = core_read_real_parent k task
      in core_read_tgid k parent)"

definition bpf_ringbuf_submit :: "syscall_event \<Rightarrow> syscall_event list \<Rightarrow> syscall_event list" where
  "bpf_ringbuf_submit e ring = ring @ [e]"

text \<open>
  The record as the handler leaves it in the reserved slot \<open>e0\<close>, assignment by
  assignment.
\<close>

definition populate :: "kernel_env \<Rightarrow> trace_event_raw_sys_enter \<Rightarrow> syscall_event \<Rightarrow> syscall_event" where
  "populate k ctx e0 =
     (let e1 = e0\<lparr>ts_ns := ktime_ns k\<rparr>;
          pid_tgid = current_pid_tgid k;
          e2 = e1\<lparr>pid := ucast (drop_bit 32 pid_tgid)\<rparr>;
          uid_gid = current_uid_gid k;
          e3 = e2\<lparr>uid := ucast uid_gid\<rparr>;
          e4 = e3\<lparr>gid := ucast (drop_bit 32 uid_gid)\<rparr>;
          e5 = e4\<lparr>ppid := get_ppid_tgid k\<rparr>;
          e6 = e5\<lparr>comm := bpf_get_current_comm k (comm e5) TASK_COMM_LEN\<rparr>;
          fname = args ctx ! 0
      in e6\<lparr>filename := bpf_core_read_user_str k (filename e6) MAX_PATH_LEN fname\<rparr>)"

text \<open>
  \<open>handle_execve\<close>: the return value and the committed records of the ring buffer, the
  only state the program shares with the consumer.
\<close>

definition handle_execve ::
  "kernel_env \<Rightarrow> trace_event_raw_sys_enter \<Rightarrow> syscall_event list \<Rightarrow> int \<times> syscall_event list" where
  "handle_execve k ctx ring =
     (case ringbuf_reserve k of
        None \<Rightarrow> (0, ring)
      | Some e0 \<Rightarrow> (0, bpf_ringbuf_submit (populate k ctx e0) ring))"

section \<open>The consumer (syscall\_loader.c)\<close>

subsection \<open>Formatted output\<close>

text \<open>The decimal digits that \<open>%u\<close>, \<open>%llu\<close> and \<open>%d\<close> print.\<close>

fun show_nat :: "nat \<Rightarrow> string" where
  "show_nat n =
     (if n < 10 then [''0123456789'' ! n]
      else show_nat (n div 10) @ [''0123456789'' ! (n mod 10)])"

declare show_nat.simps [simp del]

definition show_int :: "int \<Rightarrow> string" where
  "show_int i = (if i < 0 then CHR ''-'' # show_nat (nat (- i)) else show_nat (nat i))"

definition newline :: char where
  "newline = CHR 0x0A"

text \<open>
  The text that the \<open>printf\<close> of \<open>handle_event\<close> writes for one record. \<open>%s\<close> prints a
  buffer up to its first terminator, character by character, with no escaping.
\<close>

definition printf_event :: "syscall_event \<Rightarrow> string" where
  \<open>printf_event e =
     ''{"ts_ns":'' @ show_nat (unat (ts_ns e)) @
     '',"pid":'' @ show_nat (unat (pid e)) @
     '',"ppid":'' @ show_nat (unat (ppid e)) @
     '',"uid":'' @ show_nat (unat (uid e)) @
     '',"gid":'' @ show_nat (unat (gid e)) @
     '',"comm":"'' @ cstring (comm e) @
     ''","filename":"'' @ cstring (filename e) @
     ''","syscall":"execve"}'' @ [newline]\<close>

text \<open>The number of lines in a text: its line terminators.\<close>

definition line_count :: "string \<Rightarrow> nat" where
  "line_count s = length (filter (\<lambda>c. c = newline) s)"

subsection \<open>The process and its environment\<close>

text \<open>
  The state of the consumer process: the stop flag of the signal handler, the records
  committed to the ring buffer and not yet consumed, both output streams, and whether
  the ring buffer and the skeleton have been released.
\<close>

record proc =
  stop :: bool
  channel :: "syscall_event list"
  stdout :: string
  stderr :: string
  released :: bool

text \<open>
  libbpf is not part of the repository; what its calls return is a parameter. The
  start-up calls are described by \<open>setup_env\<close>. Each call of \<open>ring_buffer__poll\<close> is
  described by one \<open>poll_step\<close>, in this order: \<open>commits\<close> are the records that the
  capture program commits before the poll reads the ring; \<open>poll_fail\<close> is \<open>Some r\<close>
  when the wait fails and the poll returns the negative code \<open>r\<close> without reading;
  \<open>late_commits\<close> are committed after the poll has read the ring; last, \<open>sig\<close> tells
  whether SIGINT or SIGTERM has been delivered by the time the loop tests the flag again.
\<close>

record setup_env =
  skel_open_ok :: bool
  load_ret :: int
  attach_ret :: int
  rb_new_ok :: bool

record poll_step =
  commits :: "syscall_event list"
  poll_fail :: "int option"
  late_commits :: "syscall_event list"
  sig :: bool

definition EINTR :: int where
  "EINTR = 4"

definition INT_MAX :: int where
  "INT_MAX = 2147483647"

definition handle_sig :: "proc \<Rightarrow> proc" where
  "handle_sig st = st\<lparr>stop := True\<rparr>"

definition handle_event :: "syscall_event \<Rightarrow> proc \<Rightarrow> int \<times> proc" where
  "handle_event e st = (0, st\<lparr>stdout := stdout st @ printf_event e\<rparr>)"

definition fprintf_stderr :: "string \<Rightarrow> proc \<Rightarrow> proc" where
  "fprintf_stderr msg st = st\<lparr>stderr := stderr st @ msg\<rparr>"

text \<open>
  One call of \<open>ring_buffer__poll\<close>: either the wait fails, or every committed record
  is handed to \<open>handle_event\<close> in commit order and the number of records is returned.
\<close>

definition ring_buffer__poll :: "poll_step \<Rightarrow> proc \<Rightarrow> int \<times> proc" where
  "ring_buffer__poll p st =
     (let st1 = st\<lparr>channel := channel st @ commits p\<rparr>
      in case poll_fail p of
           Some r \<Rightarrow> (r, st1)
         | None \<Rightarrow>
             (min (int (length (channel st1))) INT_MAX,
              (fold (\<lambda>e s. snd (handle_event e s)) (channel st1) st1)\<lparr>channel := []\<rparr>))"

definition after_poll :: "poll_step \<Rightarrow> proc \<Rightarrow> proc" where
  "after_poll p st =
     (let st1 = st\<lparr>channel := channel st @ late_commits p\<rparr>
      in if sig p then handle_sig st1 else st1)"

subsection \<open>The poll loop and \<open>main\<close>\<close>

text \<open>
  The \<open>while (!stop)\<close> loop, one schedule entry per iteration; the result is the value
  of \<open>err\<close> and the state when the loop is left. A schedule that ends while the flag is
  still clear describes a run that has not left the loop: \<open>None\<close>.
\<close>

fun poll_loop :: "poll_step list \<Rightarrow> int \<Rightarrow> proc \<Rightarrow> (int \<times> proc) option" where
  "poll_loop [] err st = (if stop st then Some (err, st) else None)"
| "poll_loop (p # ps) err st =
     (if stop st then Some (err, st)
      else (let (r, st1) = ring_buffer__poll p st;
                st2 = after_poll p st1
            in if r = - EINTR then Some (r, st2)
               else if r < 0 then
                 Some (r, fprintf_stderr (''ring_buffer__poll error: '' @ show_int r @ [newline]) st2)
               else poll_loop ps r st2))"

text \<open>The \<open>cleanup\<close> label: release both objects, then map \<open>err\<close> to the exit status.\<close>

definition cleanup :: "int \<Rightarrow> proc \<Rightarrow> int \<times> proc" where
  "cleanup err st = (if err < 0 then 1 else 0, st\<lparr>released := True\<rparr>)"

definition main :: "setup_env \<Rightarrow> poll_step list \<Rightarrow> proc \<Rightarrow> (int \<times> proc) option" where
  "main env sched st =
     (if \<not> skel_open_ok env then
        Some (1, fprintf_stderr (''failed to open BPF skeleton'' @ [newline]) st)
      else if load_ret env \<noteq> 0 then
        Some (cleanup (load_ret env)
          (fprintf_stderr (''failed to load BPF skeleton: '' @ show_int (load_ret env) @ [newline]) st))
      else if attach_ret env \<noteq> 0 then
        Some (cleanup (attach_ret env)
          (fprintf_stderr (''failed to attach BPF programs: '' @ show_int (attach_ret env) @ [newline]) st))
      else if \<not> rb_new_ok env then
        Some (cleanup 1 (fprintf_stderr (''failed to create ring buffer'' @ [newline]) st))
      else (case poll_loop sched (attach_ret env) st of
              None \<Rightarrow> None
            | Some (err, st') \<Rightarrow> Some (cleanup err st')))"

section \<open>Concrete runs\<close>

text \<open>
  A reserved slot that still holds old bytes; a shell whose real parent is \<open>init\<close> while
  its \<open>parent\<close> field points at a tracer; user memory holding the path \<open>/bin/sh\<close> at
  address \<open>0x7000\<close>; and the same kernel with no user memory mapped at all.
\<close>

definition stale_slot :: syscall_event where
  "stale_slot = \<lparr>ts_ns = 0, pid = 0, ppid = 0, uid = 0, gid = 0, syscall_ret = 0xDEADBEEF,
     comm = replicate 16 CHR ''X'', filename = replicate 256 CHR ''X''\<rparr>"

definition sh_task :: task_struct where
  "sh_task = \<lparr>real_parent = 0x2000, parent = 0x3000, tgid = 100,
     task_comm = ''sh'' @ replicate 14 NUL\<rparr>"

definition init_task :: task_struct where
  "init_task = \<lparr>real_parent = 0x2000, parent = 0x2000, tgid = 1,
     task_comm = ''init'' @ replicate 12 NUL\<rparr>"

definition tracer_task :: task_struct where
  "tracer_task = \<lparr>real_parent = 0x2000, parent = 0x2000, tgid = 77,
     task_comm = ''gdb'' @ replicate 13 NUL\<rparr>"

definition sh_env :: kernel_env where
  "sh_env = \<lparr>ktime_ns = 5000, current_pid_tgid = 0x0000006400000064, current_uid_gid = 0,
     current_task = 0x1000,
     tasks = [0x1000 \<mapsto> sh_task, 0x2000 \<mapsto> init_task, 0x3000 \<mapsto> tracer_task],
     user_mem = map_of (zip [0x7000, 0x7001, 0x7002, 0x7003, 0x7004, 0x7005, 0x7006, 0x7007]
                            (''/bin/sh'' @ [NUL])),
     str_tail_zeros = 0,
     ringbuf_reserve = Some stale_slot\<rparr>"

definition unmapped_env :: kernel_env where
  "unmapped_env = sh_env\<lparr>user_mem := Map.empty\<rparr>"

definition sh_ctx :: trace_event_raw_sys_enter where
  "sh_ctx = \<lparr>syscall_id = 59, args = [0x7000, 0, 0, 0, 0, 0]\<rparr>"

text \<open>
  A start-up in which every step succeeds, a fresh process, two records, and three
  iterations of the poll loop: one interrupted by the signal, one after which a record
  is committed and the signal arrives, one that only delivers a record.
\<close>

definition ok_setup :: setup_env where
  "ok_setup = \<lparr>skel_open_ok = True, load_ret = 0, attach_ret = 0, rb_new_ok = True\<rparr>"

definition proc0 :: proc where
  "proc0 = \<lparr>stop = False, channel = [], stdout = [], stderr = [], released = False\<rparr>"

definition sh_event :: syscall_event where
  "sh_event = \<lparr>ts_ns = 5000, pid = 100, ppid = 1, uid = 0, gid = 0, syscall_ret = 0,
     comm = ''sh'' @ replicate 14 NUL, filename = ''/bin/sh'' @ replicate 249 NUL\<rparr>"

definition nl_event :: syscall_event where
  "nl_event = sh_event\<lparr>filename := ''/tmp/a'' @ [newline] @ ''b'' @ replicate 248 NUL\<rparr>"

definition eintr_step :: poll_step where
  "eintr_step = \<lparr>commits = [], poll_fail = Some (- EINTR), late_commits = [], sig = True\<rparr>"

definition late_step :: poll_step where
  "late_step = \<lparr>commits = [], poll_fail = None, late_commits = [sh_event], sig = True\<rparr>"

definition quiet_step :: poll_step where
  "quiet_step = \<lparr>commits = [sh_event], poll_fail = None, late_commits = [], sig = False\<rparr>"

section \<open>Buffers and bounded copies\<close>

lemma length_write_buf:
  "length bs \<le> length buf \<Longrightarrow> length (write_buf buf bs) = length buf"
  by (simp add: write_buf_def)

lemma cstring_no_NUL: "NUL \<notin> set (cstring buf)"
  unfolding cstring_def by (induction buf) auto

lemma cstring_terminated:
  "NUL \<notin> set s \<Longrightarrow> cstring (s @ NUL # r) = s"
  unfolding cstring_def by (induction s) auto

lemma cstring_write_buf:
  "NUL \<notin> set s \<Longrightarrow> cstring (write_buf buf (s @ NUL # r)) = s"
  by (simp add: write_buf_def cstring_terminated)

lemma cstring_memset0:
  "0 < n \<Longrightarrow> cstring (memset0 buf n) = []"
  by (cases n) (simp_all add: memset0_def write_buf_def cstring_def)

lemma length_memset0:
  "n \<le> length buf \<Longrightarrow> length (memset0 buf n) = length buf"
  by (simp add: memset0_def length_write_buf)

lemma strncpy_from_user_sound:
  "strncpy_from_user mem a n = Some s \<Longrightarrow> NUL \<notin> set s \<and> length s \<le> n"
  by (induction mem a n arbitrary: s rule: strncpy_from_user.induct)
     (auto split: option.splits if_splits)

lemma length_strscpy_pad:
  assumes "0 < n" "n \<le> length buf"
  shows "length (strscpy_pad buf src n) = length buf"
  using assms by (simp add: strscpy_pad_def Let_def length_write_buf)

lemma cstring_strscpy_pad:
  assumes "0 < n"
  shows "cstring (strscpy_pad buf src n) = take (n - 1) (cstring src)"
proof -
  let ?s = "take (n - 1) (cstring src)"
  have len: "length ?s < n" using assms by simp
  then obtain m where m: "n - length ?s = Suc m" by (cases "n - length ?s") auto
  have "NUL \<notin> set ?s" using cstring_no_NUL by (metis in_set_takeD)
  then show ?thesis
    unfolding strscpy_pad_def Let_def m replicate_Suc by (rule cstring_write_buf)
qed

lemma length_get_current_comm:
  "0 < n \<Longrightarrow> n \<le> length buf \<Longrightarrow> length (bpf_get_current_comm k buf n) = length buf"
  by (simp add: bpf_get_current_comm_def length_memset0 length_strscpy_pad split: option.split)

lemma cstring_get_current_comm:
  "0 < n \<Longrightarrow> cstring (bpf_get_current_comm k buf n) =
     (case tasks k (current_task k) of None \<Rightarrow> [] | Some t \<Rightarrow> take (n - 1) (cstring (task_comm t)))"
  by (simp add: bpf_get_current_comm_def cstring_memset0 cstring_strscpy_pad split: option.split)

lemma length_read_user_str:
  "n \<le> length dst \<Longrightarrow> length (bpf_core_read_user_str k dst n ptr) = length dst"
  by (cases "n = 0")
     (auto simp: bpf_core_read_user_str_def Let_def length_memset0 length_write_buf
           split: option.split)

lemma cstring_read_user_str:
  assumes "0 < n"
  shows "cstring (bpf_core_read_user_str k dst n ptr) =
     (case strncpy_from_user (user_mem k) ptr n of None \<Rightarrow> [] | Some s \<Rightarrow> take (n - 1) s)"
proof (cases "strncpy_from_user (user_mem k) ptr n")
  case None
  then show ?thesis using assms by (simp add: bpf_core_read_user_str_def cstring_memset0)
next
  case (Some s)
  then have "NUL \<notin> set (take (n - 1) s)"
    using strncpy_from_user_sound by (metis in_set_takeD)
  then have "cstring (write_buf dst (take (n - 1) s @ NUL # r)) = take (n - 1) s" for r
    by (rule cstring_write_buf)
  then show ?thesis using assms Some by (simp add: bpf_core_read_user_str_def Let_def)
qed

lemma populate_fields:
  "ts_ns (populate k ctx s) = ktime_ns k"
  "pid (populate k ctx s) = ucast (drop_bit 32 (current_pid_tgid k))"
  "uid (populate k ctx s) = ucast (current_uid_gid k)"
  "gid (populate k ctx s) = ucast (drop_bit 32 (current_uid_gid k))"
  "ppid (populate k ctx s) = get_ppid_tgid k"
  "syscall_ret (populate k ctx s) = syscall_ret s"
  "comm (populate k ctx s) = bpf_get_current_comm k (comm s) TASK_COMM_LEN"
  "filename (populate k ctx s) = bpf_core_read_user_str k (filename s) MAX_PATH_LEN (args ctx ! 0)"
  by (simp_all add: populate_def Let_def)

lemma wf_populate: "wf_event s \<Longrightarrow> wf_event (populate k ctx s)"
  by (simp add: wf_event_def populate_fields length_get_current_comm length_read_user_str
      TASK_COMM_LEN_def MAX_PATH_LEN_def)

lemma handle_execve_Some:
  "ringbuf_reserve k = Some s \<Longrightarrow> handle_execve k ctx ring = (0, ring @ [populate k ctx s])"
  by (simp add: handle_execve_def bpf_ringbuf_submit_def)

lemma wf_stale_slot: "wf_event stale_slot"
  by (simp add: wf_event_def stale_slot_def TASK_COMM_LEN_def MAX_PATH_LEN_def)

lemma cap_pos: "0 < TASK_COMM_LEN" "0 < MAX_PATH_LEN"
  by (simp_all add: TASK_COMM_LEN_def MAX_PATH_LEN_def)

lemma handle_execve_cases:
  "handle_execve k ctx ring =
     (0, ring @ (case ringbuf_reserve k of None \<Rightarrow> [] | Some s \<Rightarrow> [populate k ctx s]))"
  by (simp add: handle_execve_def bpf_ringbuf_submit_def split: option.split)

section \<open>Properties of the capture program\<close>

text \<open>
  C1. When the reservation succeeds on a well-formed slot, the record that is committed
  still has a \<open>comm\<close> of 16 characters and a \<open>filename\<close> of 256 characters (no copy wrote
  past the capacity), and in both the first terminator lies inside the buffer: the string
  before it is shorter than the capacity. This holds for every task name and every state
  of the user memory, readable or not.
\<close>

theorem comm_and_path_terminated:
  assumes "ringbuf_reserve k = Some s" and "wf_event s"
  shows "\<exists>e. snd (handle_execve k ctx ring) = ring @ [e] \<and>
           length (comm e) = TASK_COMM_LEN \<and> length (cstring (comm e)) < TASK_COMM_LEN \<and>
           length (filename e) = MAX_PATH_LEN \<and> length (cstring (filename e)) < MAX_PATH_LEN"
proof -
  let ?e = "populate k ctx s"
  have wf: "wf_event ?e" using assms(2) by (rule wf_populate)
  have c: "length (cstring (comm ?e)) < TASK_COMM_LEN"
    by (auto simp: populate_fields cstring_get_current_comm TASK_COMM_LEN_def split: option.split)
  have f: "length (cstring (filename ?e)) < MAX_PATH_LEN"
    by (auto simp: populate_fields cstring_read_user_str MAX_PATH_LEN_def split: option.split)
  show ?thesis using wf c f handle_execve_Some [OF assms(1)] by (simp add: wf_event_def)
qed

text \<open>
  C1 at a concrete input: the stale slot, the shell and the path \<open>/bin/sh\<close>.
\<close>

theorem comm_and_path_terminated_witness:
  "ringbuf_reserve sh_env = Some stale_slot \<and> wf_event stale_slot \<and>
   (\<exists>e. snd (handle_execve sh_env sh_ctx []) = [] @ [e] \<and>
           length (comm e) = TASK_COMM_LEN \<and> length (cstring (comm e)) < TASK_COMM_LEN \<and>
           length (filename e) = MAX_PATH_LEN \<and> length (cstring (filename e)) < MAX_PATH_LEN)"
proof -
  have r: "ringbuf_reserve sh_env = Some stale_slot" by (simp add: sh_env_def)
  show ?thesis using r wf_stale_slot comm_and_path_terminated [OF r wf_stale_slot, of sh_ctx "[]"] by blast
qed

text \<open>
  C2. When the reservation fails, the handler returns 0 at once and the committed records
  of the ring buffer are exactly what they were: nothing is emitted, nothing partial
  becomes visible, and no error leaves the handler.
\<close>

theorem reserve_failure_drops_event: "ringbuf_reserve k = None \<Longrightarrow> handle_execve k ctx ring = (0, ring)"
  by (simp add: handle_execve_def)

text \<open>
  C2 at a concrete input: a full ring buffer that already holds one record.
\<close>

theorem reserve_failure_drops_event_witness:
  "ringbuf_reserve (sh_env\<lparr>ringbuf_reserve := None\<rparr>) = None \<and>
   handle_execve (sh_env\<lparr>ringbuf_reserve := None\<rparr>) sh_ctx [stale_slot] = (0, [stale_slot])"
  using reserve_failure_drops_event [of "sh_env\<lparr>ringbuf_reserve := None\<rparr>" sh_ctx "[stale_slot]"] by simp

text \<open>
  C3, as stated, fails: the handler does not populate every field. With the stale slot,
  the committed record still carries the old \<open>syscall_ret\<close> and, after the terminator of
  \<open>/bin/sh\<close>, the 248 old characters of the slot.
\<close>

theorem published_record_keeps_stale_bytes:
  "map (\<lambda>e. (syscall_ret e, drop 8 (filename e))) (snd (handle_execve sh_env sh_ctx []))
     = [(0xDEADBEEF, replicate 248 CHR ''X'')]"
  by code_simp

text \<open>
  C3, amended. The handler commits nothing when the reservation fails and otherwise
  commits exactly one record, as its last action; in that record \<open>ts_ns\<close>, \<open>pid\<close>,
  \<open>ppid\<close>, \<open>uid\<close>, \<open>gid\<close> and the strings held by \<open>comm\<close> and \<open>filename\<close> are
  those of the capture context, whatever the slot held before, while \<open>syscall_ret\<close>
  keeps the previous content of the slot.
\<close>

theorem capture_populates_seven_fields:
  "handle_execve k ctx ring =
     (0, ring @ (case ringbuf_reserve k of None \<Rightarrow> [] | Some s \<Rightarrow> [populate k ctx s])) \<and>
   ts_ns (populate k ctx s) = ktime_ns k \<and>
   pid (populate k ctx s) = ucast (drop_bit 32 (current_pid_tgid k)) \<and>
   ppid (populate k ctx s) = get_ppid_tgid k \<and>
   uid (populate k ctx s) = ucast (current_uid_gid k) \<and>
   gid (populate k ctx s) = ucast (drop_bit 32 (current_uid_gid k)) \<and>
   cstring (comm (populate k ctx s)) =
     (case tasks k (current_task k) of
        None \<Rightarrow> [] | Some t \<Rightarrow> take (TASK_COMM_LEN - 1) (cstring (task_comm t))) \<and>
   cstring (filename (populate k ctx s)) =
     (case strncpy_from_user (user_mem k) (args ctx ! 0) MAX_PATH_LEN of
        None \<Rightarrow> [] | Some p \<Rightarrow> take (MAX_PATH_LEN - 1) p) \<and>
   syscall_ret (populate k ctx s) = syscall_ret s"
  by (simp add: handle_execve_cases populate_fields cstring_get_current_comm
      cstring_read_user_str cap_pos)

text \<open>
  C4. When the path cannot be read from user memory, the handler still returns 0 and
  commits one record. Its \<open>filename\<close> is the empty string; \<open>ts_ns\<close>, \<open>pid\<close>, \<open>ppid\<close>,
  \<open>uid\<close>, \<open>gid\<close> and the string of \<open>comm\<close> hold the values of the capture context; and
  the record differs from the one captured with any other user memory \<open>m\<close>, readable
  or not, in the \<open>filename\<close> field only.
\<close>

theorem unreadable_path_degrades_filename_only:
  assumes "ringbuf_reserve k = Some s"
    and "strncpy_from_user (user_mem k) (args ctx ! 0) MAX_PATH_LEN = None"
  shows "\<exists>e. handle_execve k ctx ring = (0, ring @ [e]) \<and>
           cstring (filename e) = [] \<and>
           ts_ns e = ktime_ns k \<and>
           pid e = ucast (drop_bit 32 (current_pid_tgid k)) \<and>
           ppid e = get_ppid_tgid k \<and>
           uid e = ucast (current_uid_gid k) \<and>
           gid e = ucast (drop_bit 32 (current_uid_gid k)) \<and>
           cstring (comm e) =
             (case tasks k (current_task k) of
                None \<Rightarrow> [] | Some t \<Rightarrow> take (TASK_COMM_LEN - 1) (cstring (task_comm t))) \<and>
           e = (populate (k\<lparr>user_mem := m\<rparr>) ctx s)\<lparr>filename := memset0 (filename s) MAX_PATH_LEN\<rparr>"
proof -
  let ?e = "populate k ctx s"
  have f: "filename ?e = memset0 (filename s) MAX_PATH_LEN"
    using assms(2) cap_pos by (simp add: populate_fields bpf_core_read_user_str_def)
  have c: "cstring (filename ?e) = []"
    unfolding f using cap_pos(2) by (rule cstring_memset0)
  have n: "cstring (comm ?e) =
             (case tasks k (current_task k) of
                None \<Rightarrow> [] | Some t \<Rightarrow> take (TASK_COMM_LEN - 1) (cstring (task_comm t)))"
    by (simp add: populate_fields cstring_get_current_comm cap_pos)
  have m: "?e = (populate (k\<lparr>user_mem := m\<rparr>) ctx s)\<lparr>filename := memset0 (filename s) MAX_PATH_LEN\<rparr>"
    using assms(2) cap_pos
    by (simp add: populate_def Let_def bpf_core_read_user_str_def get_ppid_tgid_def
        core_read_real_parent_def core_read_tgid_def bpf_get_current_comm_def)
  have "handle_execve k ctx ring = (0, ring @ [?e])"
    using assms(1) by (rule handle_execve_Some)
  moreover have "ts_ns ?e = ktime_ns k" "pid ?e = ucast (drop_bit 32 (current_pid_tgid k))"
    "ppid ?e = get_ppid_tgid k" "uid ?e = ucast (current_uid_gid k)"
    "gid ?e = ucast (drop_bit 32 (current_uid_gid k))"
    by (simp_all add: populate_fields)
  ultimately show ?thesis using c n m by blast
qed

text \<open>
  C4 at a concrete input: the shell calls \<open>execve\<close> with the pointer \<open>0x7000\<close> while
  no user memory is mapped. The record is committed with the identity of the shell and
  an empty path, and it is the record of the readable run (the user memory that holds
  \<open>/bin/sh\<close>) with the \<open>filename\<close> cleared.
\<close>

theorem unreadable_path_degrades_filename_only_witness:
  "ringbuf_reserve unmapped_env = Some stale_slot \<and>
   strncpy_from_user (user_mem unmapped_env) (args sh_ctx ! 0) MAX_PATH_LEN = None \<and>
   strncpy_from_user (user_mem sh_env) (args sh_ctx ! 0) MAX_PATH_LEN = Some ''/bin/sh'' \<and>
   handle_execve unmapped_env sh_ctx [] =
     (0, [\<lparr>ts_ns = 5000, pid = 100, ppid = 1, uid = 0, gid = 0, syscall_ret = 0xDEADBEEF,
           comm = ''sh'' @ replicate 14 NUL, filename = replicate 256 NUL\<rparr>]) \<and>
   (\<exists>e. handle_execve unmapped_env sh_ctx [] = (0, [] @ [e]) \<and>
           cstring (filename e) = [] \<and>
           ts_ns e = ktime_ns unmapped_env \<and>
           pid e = ucast (drop_bit 32 (current_pid_tgid unmapped_env)) \<and>
           ppid e = get_ppid_tgid unmapped_env \<and>
           uid e = ucast (current_uid_gid unmapped_env) \<and>
           gid e = ucast (drop_bit 32 (current_uid_gid unmapped_env)) \<and>
           cstring (comm e) =
             (case tasks unmapped_env (current_task unmapped_env) of
                None \<Rightarrow> []
              | Some t \<Rightarrow> take (TASK_COMM_LEN - 1) (cstring (task_comm t))) \<and>
           e = (populate (unmapped_env\<lparr>user_mem := user_mem sh_env\<rparr>) sh_ctx stale_slot)
                 \<lparr>filename := memset0 (filename stale_slot) MAX_PATH_LEN\<rparr>)"
proof -
  have r: "ringbuf_reserve unmapped_env = Some stale_slot"
    by (simp add: unmapped_env_def sh_env_def)
  have n: "strncpy_from_user (user_mem unmapped_env) (args sh_ctx ! 0) MAX_PATH_LEN = None"
    by code_simp
  have y: "strncpy_from_user (user_mem sh_env) (args sh_ctx ! 0) MAX_PATH_LEN = Some ''/bin/sh''"
    by code_simp
  have v: "handle_execve unmapped_env sh_ctx [] =
     (0, [\<lparr>ts_ns = 5000, pid = 100, ppid = 1, uid = 0, gid = 0, syscall_ret = 0xDEADBEEF,
           comm = ''sh'' @ replicate 14 NUL, filename = replicate 256 NUL\<rparr>])"
    by code_simp
  show ?thesis
    using r n y v
      unreadable_path_degrades_filename_only [OF r n, where ring = "[]" and m = "user_mem sh_env"]
    by blast
qed

text \<open>
  C5. The \<open>ppid\<close> of the committed record is the \<open>tgid\<close> of the task that the
  \<open>real_parent\<close> pointer of the current task leads to. Neither the \<open>parent\<close> field of
  the task nor the arguments of the system call take part.
\<close>

theorem ppid_is_real_parent_tgid:
  assumes "ringbuf_reserve k = Some s"
    and "tasks k (current_task k) = Some t"
    and "tasks k (real_parent t) = Some p"
  shows "\<exists>e. snd (handle_execve k ctx ring) = ring @ [e] \<and> ppid e = tgid p"
  using handle_execve_Some [OF assms(1)] assms(2,3)
  by (simp add: populate_fields get_ppid_tgid_def core_read_real_parent_def core_read_tgid_def)

text \<open>
  C5 at a concrete input: a shell whose \<open>parent\<close> (a tracer) differs from its
  \<open>real_parent\<close> (\<open>init\<close>, with \<open>tgid\<close> 1).
\<close>

theorem ppid_is_real_parent_tgid_witness:
  "ringbuf_reserve sh_env = Some stale_slot \<and>
   tasks sh_env (current_task sh_env) = Some sh_task \<and>
   tasks sh_env (real_parent sh_task) = Some init_task \<and>
   parent sh_task \<noteq> real_parent sh_task \<and>
   (\<exists>e. snd (handle_execve sh_env sh_ctx []) = [] @ [e] \<and> ppid e = tgid init_task)"
proof -
  have r: "ringbuf_reserve sh_env = Some stale_slot" by (simp add: sh_env_def)
  have c: "tasks sh_env (current_task sh_env) = Some sh_task" by (simp add: sh_env_def)
  have p: "tasks sh_env (real_parent sh_task) = Some init_task"
    by (simp add: sh_env_def sh_task_def)
  have d: "parent sh_task \<noteq> real_parent sh_task" by (simp add: sh_task_def)
  show ?thesis using r c p d ppid_is_real_parent_tgid [OF r c p, of sh_ctx "[]"] by blast
qed

text \<open>
  C10. The committed record is the reserved slot with exactly the fields \<open>ts_ns\<close>,
  \<open>pid\<close>, \<open>ppid\<close>, \<open>uid\<close>, \<open>gid\<close>, \<open>comm\<close> and \<open>filename\<close> assigned; its
  \<open>syscall_ret\<close> is what the slot held, and the text printed by the consumer for a
  record does not depend on \<open>syscall_ret\<close>.
\<close>

theorem syscall_ret_never_written:
  assumes "ringbuf_reserve k = Some s"
  shows "snd (handle_execve k ctx ring) = ring @ [populate k ctx s] \<and>
         (\<exists>t p pp u g c f.
            populate k ctx s = s\<lparr>ts_ns := t, pid := p, ppid := pp, uid := u, gid := g,
                                 comm := c, filename := f\<rparr>) \<and>
         syscall_ret (populate k ctx s) = syscall_ret s \<and>
         printf_event (e\<lparr>syscall_ret := v\<rparr>) = printf_event e"
proof -
  have "populate k ctx s = s\<lparr>ts_ns := ktime_ns k, pid := ucast (drop_bit 32 (current_pid_tgid k)),
          ppid := get_ppid_tgid k, uid := ucast (current_uid_gid k),
          gid := ucast (drop_bit 32 (current_uid_gid k)),
          comm := bpf_get_current_comm k (comm s) TASK_COMM_LEN,
          filename := bpf_core_read_user_str k (filename s) MAX_PATH_LEN (args ctx ! 0)\<rparr>"
    by (simp add: populate_def Let_def)
  then have "\<exists>t p pp u g c f.
            populate k ctx s = s\<lparr>ts_ns := t, pid := p, ppid := pp, uid := u, gid := g,
                                 comm := c, filename := f\<rparr>"
    by blast
  then show ?thesis
    using handle_execve_Some [OF assms] by (simp add: populate_fields printf_event_def)
qed

text \<open>
  C10 at a concrete input: the stale slot and the shell.
\<close>

theorem syscall_ret_never_written_witness:
  "ringbuf_reserve sh_env = Some stale_slot \<and>
   snd (handle_execve sh_env sh_ctx []) = [] @ [populate sh_env sh_ctx stale_slot] \<and>
   syscall_ret (populate sh_env sh_ctx stale_slot) = syscall_ret stale_slot \<and>
   printf_event (sh_event\<lparr>syscall_ret := 7\<rparr>) = printf_event sh_event"
proof -
  have r: "ringbuf_reserve sh_env = Some stale_slot" by (simp add: sh_env_def)
  show ?thesis using r syscall_ret_never_written [OF r, where ctx = sh_ctx and ring = "[]" and e = sh_event and v = 7] by blast
qed

section \<open>Properties of the consumer\<close>

lemma fold_handle_event:
  "fold (\<lambda>e s. snd (handle_event e s)) es st = st\<lparr>stdout := stdout st @ concat (map printf_event es)\<rparr>"
  by (induction es arbitrary: st) (simp_all add: handle_event_def)

lemma ring_buffer__poll_ok:
  assumes "poll_fail p = None"
  shows "\<exists>r. 0 \<le> r \<and> r \<noteq> - EINTR \<and>
   ring_buffer__poll p st =
     (r, st\<lparr>channel := [], stdout := stdout st @ concat (map printf_event (channel st @ commits p))\<rparr>)"
proof -
  let ?r = "min (int (length (channel st @ commits p))) INT_MAX"
  have "0 \<le> ?r" "?r \<noteq> - EINTR" by (simp_all add: INT_MAX_def EINTR_def)
  moreover have "ring_buffer__poll p st =
     (?r, st\<lparr>channel := [], stdout := stdout st @ concat (map printf_event (channel st @ commits p))\<rparr>)"
    using assms by (simp add: ring_buffer__poll_def Let_def fold_handle_event)
  ultimately show ?thesis by blast
qed

lemma poll_loop_step:
  assumes "\<not> stop st" and "poll_fail p = None"
  shows "\<exists>r. 0 \<le> r \<and> poll_loop (p # ps) err st =
     poll_loop ps r (after_poll p (st\<lparr>channel := [],
        stdout := stdout st @ concat (map printf_event (channel st @ commits p))\<rparr>))"
proof -
  obtain r where r: "0 \<le> r" "r \<noteq> - EINTR" and
    "ring_buffer__poll p st =
     (r, st\<lparr>channel := [], stdout := stdout st @ concat (map printf_event (channel st @ commits p))\<rparr>)"
    using ring_buffer__poll_ok [OF assms(2)] by blast
  then have "poll_loop (p # ps) err st =
     poll_loop ps r (after_poll p (st\<lparr>channel := [],
        stdout := stdout st @ concat (map printf_event (channel st @ commits p))\<rparr>))"
    using assms(1) by simp
  then show ?thesis using r(1) by blast
qed

lemma poll_loop_stopped: "stop st \<Longrightarrow> poll_loop sched err st = Some (err, st)"
  by (cases sched) simp_all

lemma poll_loop_clean:
  assumes "\<not> stop st"
    and "\<forall>q\<in>set ps. poll_fail q = None \<and> \<not> sig q"
    and "poll_fail p = None" and "sig p"
  shows "\<exists>r\<ge>0. poll_loop (ps @ p # rest) err st =
     Some (r, st\<lparr>stop := True, channel := late_commits p,
        stdout := stdout st @ concat (map printf_event
           (channel st @ concat (map (\<lambda>q. commits q @ late_commits q) ps) @ commits p))\<rparr>)"
  using assms
proof (induction ps arbitrary: st err)
  case Nil
  let ?st = "after_poll p (st\<lparr>channel := [],
        stdout := stdout st @ concat (map printf_event (channel st @ commits p))\<rparr>)"
  obtain r where r: "0 \<le> r" "poll_loop (p # rest) err st = poll_loop rest r ?st"
    using poll_loop_step [OF Nil.prems(1,3)] by blast
  have "stop ?st" using Nil.prems(4) by (simp add: after_poll_def handle_sig_def)
  then have "poll_loop rest r ?st = Some (r, ?st)" by (rule poll_loop_stopped)
  then show ?case using r Nil.prems(4) by (auto simp: after_poll_def handle_sig_def)
next
  case (Cons q qs)
  define st' where "st' = st\<lparr>channel := late_commits q,
        stdout := stdout st @ concat (map printf_event (channel st @ commits q))\<rparr>"
  have q: "poll_fail q = None" "\<not> sig q" using Cons.prems(2) by simp_all
  have eq: "after_poll q (st\<lparr>channel := [],
        stdout := stdout st @ concat (map printf_event (channel st @ commits q))\<rparr>) = st'"
    using q(2) by (simp add: after_poll_def st'_def)
  obtain r where r: "poll_loop ((q # qs) @ p # rest) err st = poll_loop (qs @ p # rest) r st'"
    using poll_loop_step [OF Cons.prems(1) q(1), of "qs @ p # rest" err] unfolding eq by auto
  have "\<not> stop st'" using Cons.prems(1) by (simp add: st'_def)
  moreover have "\<forall>q\<in>set qs. poll_fail q = None \<and> \<not> sig q" using Cons.prems(2) by simp
  ultimately obtain r' where r': "0 \<le> r'"
    "poll_loop (qs @ p # rest) r st' =
     Some (r', st'\<lparr>stop := True, channel := late_commits p,
        stdout := stdout st' @ concat (map printf_event
           (channel st' @ concat (map (\<lambda>q. commits q @ late_commits q) qs) @ commits p))\<rparr>)"
    using Cons.IH [of st' r] Cons.prems(3,4) by blast
  have "st'\<lparr>stop := True, channel := late_commits p,
        stdout := stdout st' @ concat (map printf_event
           (channel st' @ concat (map (\<lambda>q. commits q @ late_commits q) qs) @ commits p))\<rparr>
      = st\<lparr>stop := True, channel := late_commits p,
        stdout := stdout st @ concat (map printf_event
           (channel st @ concat (map (\<lambda>q. commits q @ late_commits q) (q # qs)) @ commits p))\<rparr>"
    by (simp add: st'_def)
  then show ?case using r r' by auto
qed

lemma set_show_nat: "set (show_nat n) \<subseteq> set ''0123456789''"
proof (induction n rule: show_nat.induct)
  case (1 n)
  have d: "\<And>m. m < 10 \<Longrightarrow> ''0123456789'' ! m \<in> set ''0123456789''"
    by (rule nth_mem) simp
  show ?case
  proof (cases "n < 10")
    case True
    then show ?thesis using d [of n] by (subst show_nat.simps) simp
  next
    case False
    have "n mod 10 < 10" by simp
    then show ?thesis using False 1 d [of "n mod 10"] by (subst show_nat.simps) simp
  qed
qed

lemma line_count_append: "line_count (a @ b) = line_count a + line_count b"
  by (simp add: line_count_def)

lemma line_count_show_nat: "line_count (show_nat n) = 0"
proof -
  have "newline \<notin> set ''0123456789''" by (simp add: newline_def)
  then have "newline \<notin> set (show_nat n)" using set_show_nat by blast
  then show ?thesis by (auto simp: line_count_def filter_empty_conv)
qed

lemma line_count_printf_event:
  "line_count (printf_event e) =
     Suc (line_count (cstring (comm e)) + line_count (cstring (filename e)))"
  unfolding printf_event_def line_count_append line_count_show_nat
  by (simp add: line_count_def newline_def)

text \<open>
  C6. The exit status when the signal interrupts the blocking poll: the poll returns
  \<open>-EINTR\<close>, the loop is left without a message, and \<open>main\<close> returns 1, not 0.
\<close>

theorem eintr_exit_status_nonzero: "main ok_setup [eintr_step] proc0 = Some (1, proc0\<lparr>stop := True, released := True\<rparr>)"
  by code_simp

text \<open>
  C7, as stated, fails: a record committed after the last poll has read the ring, and
  before the signal, is still in the ring buffer when \<open>main\<close> returns 0, and nothing
  has been printed.
\<close>

theorem stop_leaves_committed_record: "main ok_setup [late_step] proc0 =
    Some (0, proc0\<lparr>stop := True, channel := [sh_event], released := True\<rparr>)"
  by code_simp

text \<open>
  C7, amended. When start-up succeeds, the polls succeed and the signal arrives during
  the iteration \<open>p\<close>, \<open>main\<close> returns 0 having printed, in commit order, every record
  committed before the poll of \<open>p\<close> read the ring; it polls no more (the rest of the
  schedule is not used), and the records committed after that poll stay in the ring
  buffer.
\<close>

theorem clean_shutdown_emits_polled_records:
  assumes "skel_open_ok env" and "load_ret env = 0" and "attach_ret env = 0" and "rb_new_ok env"
    and "\<not> stop st"
    and "\<forall>q\<in>set ps. poll_fail q = None \<and> \<not> sig q"
    and "poll_fail p = None" and "sig p"
  shows "main env (ps @ p # rest) st =
     Some (0, st\<lparr>stop := True, channel := late_commits p,
        stdout := stdout st @ concat (map printf_event
           (channel st @ concat (map (\<lambda>q. commits q @ late_commits q) ps) @ commits p)),
        released := True\<rparr>)"
proof -
  obtain r where "0 \<le> r" and "poll_loop (ps @ p # rest) (attach_ret env) st =
     Some (r, st\<lparr>stop := True, channel := late_commits p,
        stdout := stdout st @ concat (map printf_event
           (channel st @ concat (map (\<lambda>q. commits q @ late_commits q) ps) @ commits p))\<rparr>)"
    using poll_loop_clean [OF assms(5-8)] by blast
  then show ?thesis using assms(1-4) by (simp add: main_def cleanup_def)
qed

text \<open>
  C7, amended, at a concrete input: one iteration that delivers a record, then one
  during which a second record is committed late and the signal arrives.
\<close>

theorem clean_shutdown_emits_polled_records_witness:
  "skel_open_ok ok_setup \<and> load_ret ok_setup = 0 \<and> attach_ret ok_setup = 0 \<and>
   rb_new_ok ok_setup \<and> \<not> stop proc0 \<and>
   poll_fail quiet_step = None \<and> \<not> sig quiet_step \<and>
   poll_fail late_step = None \<and> sig late_step \<and>
   main ok_setup [quiet_step, late_step] proc0 =
     Some (0, proc0\<lparr>stop := True, channel := [sh_event],
                    stdout := printf_event sh_event, released := True\<rparr>)"
proof -
  have s: "skel_open_ok ok_setup" "load_ret ok_setup = 0" "attach_ret ok_setup = 0"
    "rb_new_ok ok_setup"
    by (simp_all add: ok_setup_def)
  have n: "\<not> stop proc0" by (simp add: proc0_def)
  have q: "\<forall>q\<in>set [quiet_step]. poll_fail q = None \<and> \<not> sig q"
    by (simp add: quiet_step_def)
  have p: "poll_fail late_step = None" "sig late_step" by (simp_all add: late_step_def)
  have "main ok_setup ([quiet_step] @ late_step # []) proc0 =
     Some (0, proc0\<lparr>stop := True, channel := late_commits late_step,
        stdout := stdout proc0 @ concat (map printf_event
           (channel proc0 @ concat (map (\<lambda>q. commits q @ late_commits q) [quiet_step])
              @ commits late_step)),
        released := True\<rparr>)"
    by (rule clean_shutdown_emits_polled_records [OF s n q p])
  then have "main ok_setup [quiet_step, late_step] proc0 =
     Some (0, proc0\<lparr>stop := True, channel := [sh_event],
                    stdout := printf_event sh_event, released := True\<rparr>)"
    by (simp add: proc0_def quiet_step_def late_step_def)
  then show ?thesis using s n p q by simp
qed

text \<open>
  C8. The exit status when the ring buffer cannot be created: the message is printed,
  \<open>err\<close> is set to 1, and \<open>main\<close> returns 0, for every schedule and every state.
\<close>

theorem ring_buffer_failure_exit_status_zero: "main (ok_setup\<lparr>rb_new_ok := False\<rparr>) sched st =
   Some (0, st\<lparr>stderr := stderr st @ ''failed to create ring buffer'' @ [newline], released := True\<rparr>)"
  by (simp add: main_def ok_setup_def cleanup_def fprintf_stderr_def)

text \<open>
  C9. The text printed for a record whose path contains a line feed holds two line
  terminators: one record, two lines.
\<close>

theorem newline_in_path_prints_two_lines: "line_count (stdout (snd (handle_event nl_event proc0))) = 2"
proof -
  have c: "cstring (comm nl_event) = ''sh''"
    by (simp add: nl_event_def sh_event_def cstring_def NUL_def)
  have f: "cstring (filename nl_event) = ''/tmp/a'' @ [newline] @ ''b''"
    by (simp add: nl_event_def sh_event_def cstring_def NUL_def newline_def)
  have "line_count (printf_event nl_event) = 2"
    unfolding line_count_printf_event c f by (simp add: line_count_def newline_def)
  then show ?thesis by (simp add: handle_event_def proc0_def)
qed

end
